theory Spec2Isabelle
  imports Main "HOL-Library.Word" "HOL-Library.AList" "HOL-Library.Char_ord"
    "HOL-Library.List_Lexorder"
begin

unbundle bit_operations_syntax

section \<open>Shared data model (package models and Go runtime values)\<close>

text \<open>
  Go's \<open>uint64\<close> and \<open>int64\<close> are 64-bit words (arithmetic wraps); a signed value is read
  with \<open>sint\<close>, an unsigned one with \<open>unat\<close>.
\<close>

type_synonym uint64 = "64 word"
type_synonym int64 = "64 word"

text \<open>
  A \<open>time.Time\<close> is the number of nanoseconds since the zero time (\<open>IsZero\<close> is \<open>t = 0\<close>);
  a \<open>time.Duration\<close> is a signed 64-bit count of nanoseconds, and \<open>Time.Sub\<close> saturates
  at the ends of that range.
\<close>

type_synonym time = int
type_synonym duration = int

definition maxDuration :: duration where
  "maxDuration = 2 ^ 63 - 1"

definition minDuration :: duration where
  "minDuration = - (2 ^ 63)"

definition Sub :: "time \<Rightarrow> time \<Rightarrow> duration" where
  "Sub t u = (if t - u > maxDuration then maxDuration
              else if t - u < minDuration then minDuration else t - u)"

definition Second :: duration where
  "Second = 1000000000"

text \<open>
  The dynamic type of an \<open>interface{}\<close> value, one constructor per type the code
  switches on; \<open>VFloat64\<close> carries the IEEE bit pattern, \<open>VOther\<close> any other type.
\<close>

datatype val =
    VString string
  | VInt64 int64
  | VUint64 uint64
  | VFloat64 "64 word"
  | VBytes string
  | VUint32 "32 word"
  | VUint "64 word"
  | VInt "64 word"
  | VInt32 "32 word"
  | VOther string

section \<open>Go string helpers (package strings, strconv)\<close>

definition HasPrefix :: "string \<Rightarrow> string \<Rightarrow> bool" where
  "HasPrefix s p = (take (length p) s = p)"

definition HasSuffix :: "string \<Rightarrow> string \<Rightarrow> bool" where
  "HasSuffix s p = (length p \<le> length s \<and> drop (length s - length p) s = p)"

definition TrimPrefix :: "string \<Rightarrow> string \<Rightarrow> string" where
  "TrimPrefix s p = (if HasPrefix s p then drop (length p) s else s)"

definition TrimSuffix :: "string \<Rightarrow> string \<Rightarrow> string" where
  "TrimSuffix s p = (if HasSuffix s p then take (length s - length p) s else s)"

text \<open>
  \<open>strings.TrimSpace\<close> removes leading and trailing Unicode white space. A Go string is
  a byte sequence, so each white-space code point is listed by its UTF-8 encoding.
\<close>

definition spaceRunes :: "string list" where
  "spaceRunes =
     [[CHR 0x09], [CHR 0x0A], [CHR 0x0B], [CHR 0x0C], [CHR 0x0D], [CHR 0x20],
      [CHR 0xC2, CHR 0x85], [CHR 0xC2, CHR 0xA0],
      [CHR 0xE1, CHR 0x9A, CHR 0x80],
      [CHR 0xE2, CHR 0x80, CHR 0x80], [CHR 0xE2, CHR 0x80, CHR 0x81],
      [CHR 0xE2, CHR 0x80, CHR 0x82], [CHR 0xE2, CHR 0x80, CHR 0x83],
      [CHR 0xE2, CHR 0x80, CHR 0x84], [CHR 0xE2, CHR 0x80, CHR 0x85],
      [CHR 0xE2, CHR 0x80, CHR 0x86], [CHR 0xE2, CHR 0x80, CHR 0x87],
      [CHR 0xE2, CHR 0x80, CHR 0x88], [CHR 0xE2, CHR 0x80, CHR 0x89],
      [CHR 0xE2, CHR 0x80, CHR 0x8A], [CHR 0xE2, CHR 0x80, CHR 0xA8],
      [CHR 0xE2, CHR 0x80, CHR 0xA9], [CHR 0xE2, CHR 0x80, CHR 0xAF],
      [CHR 0xE2, CHR 0x81, CHR 0x9F], [CHR 0xE3, CHR 0x80, CHR 0x80]]"

definition leadingSpace :: "string \<Rightarrow> nat" where
  "leadingSpace s = (case filter (HasPrefix s) spaceRunes of [] \<Rightarrow> 0 | r # _ \<Rightarrow> length r)"

definition trailingSpace :: "string \<Rightarrow> nat" where
  "trailingSpace s = (case filter (HasSuffix s) spaceRunes of [] \<Rightarrow> 0 | r # _ \<Rightarrow> length r)"

function TrimLeft :: "string \<Rightarrow> string" where
  "TrimLeft s = (if leadingSpace s = 0 \<or> s = [] then s else TrimLeft (drop (leadingSpace s) s))"
  by pat_completeness auto
termination
  by (relation "measure length") auto

function TrimRight :: "string \<Rightarrow> string" where
  "TrimRight s = (if trailingSpace s = 0 \<or> s = [] then s
                  else TrimRight (take (length s - trailingSpace s) s))"
  by pat_completeness auto
termination
  by (relation "measure length") auto

declare TrimLeft.simps [simp del] TrimRight.simps [simp del]

definition TrimSpace :: "string \<Rightarrow> string" where
  "TrimSpace s = TrimRight (TrimLeft s)"

text \<open>\<open>strings.LastIndex s "."\<close>: the index of the last dot, or none (\<open>-1\<close> in Go).\<close>

fun LastIndexDot :: "string \<Rightarrow> nat option" where
  "LastIndexDot [] = None"
| "LastIndexDot (c # cs) =
     (case LastIndexDot cs of
        Some i \<Rightarrow> Some (Suc i)
      | None \<Rightarrow> if c = CHR ''.'' then Some 0 else None)"

text \<open>Decimal text of an integer, as \<open>strconv.FormatInt\<close>, \<open>FormatUint\<close> and \<open>%d\<close> print it.\<close>

fun FormatUint :: "nat \<Rightarrow> string" where
  "FormatUint n =
     (if n < 10 then [''0123456789'' ! n]
      else FormatUint (n div 10) @ [''0123456789'' ! (n mod 10)])"

declare FormatUint.simps [simp del]

definition FormatInt :: "int \<Rightarrow> string" where
  "FormatInt i = (if i < 0 then CHR ''-'' # FormatUint (nat (- i)) else FormatUint (nat i))"

fun Join :: "string list \<Rightarrow> string \<Rightarrow> string" where
  "Join [] sep = []"
| "Join [x] sep = x"
| "Join (x # y # ys) sep = x @ sep @ Join (y # ys) sep"

section \<open>Producer: counter delta state (producer/metrics)\<close>

record CounterKey =
  ck_Device :: string
  ck_Attribute :: string
  ck_Instance :: string

record counterEntry =
  ce_Value :: uint64
  ce_SeenAt :: time

text \<open>
  \<open>CounterState.entries\<close>, a Go map, as an association list with one pair per key
  (\<open>AList.update\<close> overwrites in place or appends).
\<close>

type_synonym CounterState = "(CounterKey \<times> counterEntry) list"

definition NewCounterState :: CounterState where
  "NewCounterState = []"

record DeltaResult =
  dr_Delta :: uint64
  dr_Elapsed :: duration
  dr_Valid :: bool

definition invalidResult :: DeltaResult where
  "invalidResult = \<lparr>dr_Delta = 0, dr_Elapsed = 0, dr_Valid = False\<rparr>"

definition Delta :: "CounterState \<Rightarrow> CounterKey \<Rightarrow> uint64 \<Rightarrow> time \<Rightarrow> uint64
    \<Rightarrow> DeltaResult \<times> CounterState" where
  "Delta s key current now wrap =
     (let prev = map_of s key;
          s' = AList.update key \<lparr>ce_Value = current, ce_SeenAt = now\<rparr> s
      in case prev of
           None \<Rightarrow> (invalidResult, s')
         | Some p \<Rightarrow>
             (let elapsed = Sub now (ce_SeenAt p) in
              if elapsed \<le> 0 then (invalidResult, s')
              else
                (let delta = (if current \<ge> ce_Value p then current - ce_Value p
                              else (wrap - ce_Value p) + current + 1)
                 in (\<lparr>dr_Delta = delta, dr_Elapsed = elapsed, dr_Valid = True\<rparr>, s'))))"

definition Remove :: "CounterState \<Rightarrow> CounterKey \<Rightarrow> CounterState" where
  "Remove s key = AList.delete key s"

definition Purge :: "CounterState \<Rightarrow> duration \<Rightarrow> time \<Rightarrow> nat \<times> CounterState" where
  "Purge s maxAge now =
     (let cutoff = now - maxAge
      in (length (filter (\<lambda>(k, e). ce_SeenAt e < cutoff) s),
          filter (\<lambda>(k, e). \<not> ce_SeenAt e < cutoff) s))"

definition IsCounterSyntax :: "string \<Rightarrow> bool" where
  "IsCounterSyntax syntax = (syntax = ''Counter32'' \<or> syntax = ''Counter64'')"

definition WrapForSyntax :: "string \<Rightarrow> uint64" where
  "WrapForSyntax syntax = (if syntax = ''Counter32'' then 4294967295 else - 1)"

definition syntaxPriority :: "string \<Rightarrow> int" where
  "syntaxPriority syntax =
     (if syntax = ''Counter64'' then 20
      else if syntax = ''Counter32'' then 10
      else if syntax = ''BandwidthGBits'' then 14
      else if syntax = ''BandwidthMBits'' then 13
      else if syntax = ''BandwidthKBits'' then 12
      else if syntax = ''BandwidthBits'' \<or> syntax = ''Gauge32'' then 11
      else 0)"

section \<open>Producer: enum registry (producer/metrics/enrich.go)\<close>

record IntEnum =
  IsBitmap :: bool
  Values :: "int64 \<rightharpoonup> string"

record EnumRegistry =
  ints :: "string \<rightharpoonup> IntEnum"
  oids :: "string \<rightharpoonup> string"

definition NewEnumRegistry :: EnumRegistry where
  "NewEnumRegistry = \<lparr>ints = Map.empty, oids = Map.empty\<rparr>"

definition normaliseRegistryOID :: "string \<Rightarrow> string" where
  "normaliseRegistryOID oid = TrimPrefix (TrimSpace oid) ''.''"

definition RegisterIntEnum :: "EnumRegistry \<Rightarrow> string \<Rightarrow> bool \<Rightarrow> (int64 \<rightharpoonup> string)
    \<Rightarrow> EnumRegistry" where
  "RegisterIntEnum r oid isBitmap values =
     r\<lparr>ints := (ints r)(normaliseRegistryOID oid \<mapsto> \<lparr>IsBitmap = isBitmap, Values = values\<rparr>)\<rparr>"

definition RegisterOIDEnum :: "EnumRegistry \<Rightarrow> string \<Rightarrow> string \<Rightarrow> EnumRegistry" where
  "RegisterOIDEnum r oid label = r\<lparr>oids := (oids r)(normaliseRegistryOID oid \<mapsto> label)\<rparr>"

definition toInt64ForEnum :: "val \<Rightarrow> int64 option" where
  "toInt64ForEnum v =
     (case v of
        VInt x \<Rightarrow> Some x
      | VInt32 x \<Rightarrow> Some (scast x)
      | VInt64 x \<Rightarrow> Some x
      | VUint x \<Rightarrow> Some x
      | VUint32 x \<Rightarrow> Some (ucast x)
      | VUint64 x \<Rightarrow> Some x
      | _ \<Rightarrow> None)"

definition resolveBitmap :: "(int64 \<rightharpoonup> string) \<Rightarrow> int64 \<Rightarrow> val" where
  "resolveBitmap values bits =
     (let active = concat (map (\<lambda>b. if bits AND push_bit b 1 \<noteq> 0
                                      then (case values (of_nat b) of
                                              Some label \<Rightarrow> [label] | None \<Rightarrow> [])
                                      else []) [0..<64])
      in if length active = 0 then VInt64 bits else VString (Join active '',''))"

definition Resolve :: "EnumRegistry \<Rightarrow> string \<Rightarrow> val \<Rightarrow> val" where
  "Resolve r oid0 rawValue =
     (let oid = normaliseRegistryOID oid0 in
      case oids r oid of
        Some label \<Rightarrow> VString label
      | None \<Rightarrow>
          (case (case rawValue of
                   VString strVal \<Rightarrow> oids r (normaliseRegistryOID strVal)
                 | _ \<Rightarrow> None) of
             Some label \<Rightarrow> VString label
           | None \<Rightarrow>
               (case ints r oid of
                  None \<Rightarrow> rawValue
                | Some intEnum \<Rightarrow>
                    (case toInt64ForEnum rawValue of
                       None \<Rightarrow> rawValue
                     | Some intVal \<Rightarrow>
                         if IsBitmap intEnum then resolveBitmap (Values intEnum) intVal
                         else (case Values intEnum intVal of
                                 Some label \<Rightarrow> VString label
                               | None \<Rightarrow> rawValue)))))"

section \<open>Producer: Build (producer/metrics/poll.go)\<close>

record Device =
  Hostname :: string
  IPAddress :: string
  SNMPVersion :: string
  Vendor :: string
  Model :: string
  SysDescr :: string
  SysLocation :: string
  SysContact :: string
  Tags :: "(string \<times> string) list"

record DecodedVarbind =
  vb_OID :: string
  vb_AttributeName :: string
  vb_Instance :: string
  vb_Value :: val
  vb_SNMPType :: string
  vb_Syntax :: string
  vb_IsTag :: bool

record DecodedPollResult =
  d_Device :: Device
  d_ObjectDefKey :: string
  d_Varbinds :: "DecodedVarbind list"
  d_CollectedAt :: time
  d_PollDurationMs :: int64

record Metric =
  m_OID :: string
  m_Name :: string
  m_Instance :: string
  m_Value :: val
  m_Type :: string
  m_Syntax :: string
  m_Tags :: "(string \<times> string) list"

record MetricMetadata =
  md_CollectorID :: string
  md_PollDurationMs :: int64
  md_PollStatus :: string

record SNMPMetric =
  sm_Timestamp :: time
  sm_Device :: Device
  sm_Metrics :: "Metric list"
  sm_Metadata :: MetricMetadata

text \<open>A nil pointer option is \<open>None\<close>; the counter state behind the pointer is returned updated.\<close>

record BuildOptions =
  o_CollectorID :: string
  o_PollStatus :: string
  o_Enums :: "EnumRegistry option"
  o_Counters :: "CounterState option"

text \<open>
  \<open>fmtv\<close> stands for \<open>fmt.Sprintf\<close> with the verbs \<open>%g\<close> and \<open>%v\<close> of the Go standard
  library, which \<open>tagValue\<close> uses for floats and for every other type.
\<close>

definition tagValue :: "(val \<Rightarrow> string) \<Rightarrow> val \<Rightarrow> string" where
  "tagValue fmtv v =
     (case v of
        VString x \<Rightarrow> x
      | VInt64 x \<Rightarrow> FormatInt (sint x)
      | VUint64 x \<Rightarrow> FormatUint (unat x)
      | VFloat64 x \<Rightarrow> fmtv v
      | VBytes x \<Rightarrow> x
      | _ \<Rightarrow> fmtv v)"

definition isEnumSyntax :: "string \<Rightarrow> bool" where
  "isEnumSyntax syntax =
     (syntax = ''EnumInteger'' \<or> syntax = ''EnumIntegerKeepID'' \<or> syntax = ''EnumBitmap''
      \<or> syntax = ''EnumObjectIdentifier'' \<or> syntax = ''EnumObjectIdentifierKeepOID'')"

definition toUint64Safe :: "val \<Rightarrow> uint64 option" where
  "toUint64Safe v =
     (case v of
        VUint64 x \<Rightarrow> Some x
      | VUint32 x \<Rightarrow> Some (ucast x)
      | VUint x \<Rightarrow> Some x
      | VInt64 x \<Rightarrow> if 0 \<le> sint x then Some x else None
      | VInt x \<Rightarrow> if 0 \<le> sint x then Some x else None
      | _ \<Rightarrow> None)"

text \<open>
  A Go map read with a missing key gives the zero value: the nil slice or nil map, here
  the empty list.
\<close>

definition getOrNil :: "('k \<times> 'v list) list \<Rightarrow> 'k \<Rightarrow> 'v list" where
  "getOrNil m k = (case map_of m k of None \<Rightarrow> [] | Some v \<Rightarrow> v)"

type_synonym tagMap = "(string \<times> (string \<times> string) list) list"
type_synonym metricMap = "(string \<times> DecodedVarbind list) list"

text \<open>Steps 1 and 2: the body of the loop over \<open>decoded.Varbinds\<close>.\<close>

definition partitionStep :: "(val \<Rightarrow> string) \<Rightarrow> tagMap \<times> metricMap \<Rightarrow> DecodedVarbind
    \<Rightarrow> tagMap \<times> metricMap" where
  "partitionStep fmtv acc vb =
     (case acc of (tagsByInstance, metricsByInstance) \<Rightarrow>
        if vb_IsTag vb then
          (AList.update (vb_Instance vb)
             (AList.update (vb_AttributeName vb) (tagValue fmtv (vb_Value vb))
                (getOrNil tagsByInstance (vb_Instance vb)))
             tagsByInstance,
           metricsByInstance)
        else
          (tagsByInstance,
           AList.update (vb_Instance vb) (getOrNil metricsByInstance (vb_Instance vb) @ [vb])
             metricsByInstance))"

text \<open>Step 3: the body of the loop over one instance's candidates.\<close>

definition overrideStep :: "(string \<times> DecodedVarbind) list \<Rightarrow> DecodedVarbind
    \<Rightarrow> (string \<times> DecodedVarbind) list" where
  "overrideStep byName vb =
     (case map_of byName (vb_AttributeName vb) of
        None \<Rightarrow> AList.update (vb_AttributeName vb) vb byName
      | Some existing \<Rightarrow>
          if syntaxPriority (vb_Syntax vb) > syntaxPriority (vb_Syntax existing)
          then AList.update (vb_AttributeName vb) vb byName
          else byName)"

definition resolveInstance :: "DecodedVarbind list \<Rightarrow> (string \<times> DecodedVarbind) list" where
  "resolveInstance vbs = foldl overrideStep [] vbs"

text \<open>
  Steps 4 and 5: the body of the inner loop, for one winning varbind of an instance.
  \<open>buildMetric\<close> computes the metric and the counter state after it, \<open>emitMetric\<close>
  appends the metric.
\<close>

definition buildMetric :: "EnumRegistry option \<Rightarrow> string \<Rightarrow> time \<Rightarrow> string
    \<Rightarrow> (string \<times> string) list \<Rightarrow> CounterState option \<Rightarrow> DecodedVarbind
    \<Rightarrow> Metric \<times> CounterState option" where
  "buildMetric enums hostname now instance instanceTags counters vb =
     (let value1 =
            (case enums of
               None \<Rightarrow> vb_Value vb
             | Some r \<Rightarrow>
                 if isEnumSyntax (vb_Syntax vb) then
                   Resolve r
                     (if vb_Instance vb \<noteq> [] then TrimSuffix (vb_OID vb) (''.'' @ vb_Instance vb)
                      else vb_OID vb)
                     (vb_Value vb)
                 else vb_Value vb);
          (value2, counters') =
            (case counters of
               None \<Rightarrow> (value1, None)
             | Some s \<Rightarrow>
                 if IsCounterSyntax (vb_Syntax vb) then
                   (case toUint64Safe value1 of
                      None \<Rightarrow> (value1, Some s)
                    | Some raw \<Rightarrow>
                        (let (dr, s') =
                               Delta s \<lparr>ck_Device = hostname, ck_Attribute = vb_AttributeName vb,
                                         ck_Instance = instance\<rparr>
                                 raw now (WrapForSyntax (vb_Syntax vb))
                         in (if dr_Valid dr then VUint64 (dr_Delta dr) else VUint64 0, Some s')))
                 else (value1, Some s));
          tags = (if length instanceTags > 0 then instanceTags else [])
      in (\<lparr>m_OID = vb_OID vb, m_Name = vb_AttributeName vb, m_Instance = instance,
            m_Value = value2, m_Type = vb_SNMPType vb, m_Syntax = vb_Syntax vb,
            m_Tags = tags\<rparr>,
          counters'))"

definition emitMetric :: "EnumRegistry option \<Rightarrow> string \<Rightarrow> time \<Rightarrow> string
    \<Rightarrow> (string \<times> string) list \<Rightarrow> Metric list \<times> CounterState option \<Rightarrow> DecodedVarbind
    \<Rightarrow> Metric list \<times> CounterState option" where
  "emitMetric enums hostname now instance instanceTags acc vb =
     (case acc of (metrics, counters) \<Rightarrow>
        (case buildMetric enums hostname now instance instanceTags counters vb of
           (m, counters') \<Rightarrow> (metrics @ [m], counters')))"

text \<open>
  \<open>Build\<close>. \<open>clock\<close> is the reading of \<open>time.Now()\<close>. Go leaves the iteration order of a
  map open; the association lists iterate in insertion order.
\<close>

definition Build :: "(val \<Rightarrow> string) \<Rightarrow> time \<Rightarrow> DecodedPollResult \<Rightarrow> BuildOptions
    \<Rightarrow> SNMPMetric \<times> CounterState option" where
  "Build fmtv clock decoded opts =
     (let now = (if d_CollectedAt decoded = 0 then clock else d_CollectedAt decoded);
          (tagsByInstance, metricsByInstance) =
             foldl (partitionStep fmtv) ([], []) (d_Varbinds decoded);
          resolved = map (\<lambda>(instance, vbs). (instance, resolveInstance vbs)) metricsByInstance;
          (metrics, counters') =
             foldl (\<lambda>acc (instance, byName).
                      foldl (emitMetric (o_Enums opts) (Hostname (d_Device decoded)) now instance
                               (getOrNil tagsByInstance instance))
                        acc (map snd byName))
               ([], o_Counters opts) resolved
      in (\<lparr>sm_Timestamp = now, sm_Device = d_Device decoded, sm_Metrics = metrics,
            sm_Metadata = \<lparr>md_CollectorID = o_CollectorID opts,
                            md_PollDurationMs = d_PollDurationMs decoded,
                            md_PollStatus = o_PollStatus opts\<rparr>\<rparr>,
          counters'))"

section \<open>Errors and raw PDUs\<close>

datatype error =
    NoAttributes
  | EmptyAttributeOID
  | ConversionFailed
  | NilPacket
  | UnsupportedVersion
  | PoolClosed
  | ContextDone
  | DialFailed

text \<open>The ASN.1 type tags of gosnmp that the code names; any other tag is \<open>OtherBER\<close>.\<close>

datatype Asn1BER =
    Integer | BitString | OctetString | Null | ObjectIdentifier | IPAddress
  | Counter32 | Gauge32 | TimeTicks | Opaque | Counter64 | Uinteger32
  | NoSuchObject | NoSuchInstance | EndOfMibView | OtherBER nat

record SnmpPDU =
  pdu_Name :: string
  pdu_Type :: Asn1BER
  pdu_Value :: val

section \<open>Decoder: OID matching (snmp/decoder/varbind.go)\<close>

record OverrideReference =
  or_Object :: string
  or_Attribute :: string

record AttributeDefinition =
  ad_OID :: string
  ad_Name :: string
  ad_Syntax :: string
  ad_IsTag :: bool
  ad_Overrides :: "OverrideReference option"
  ad_Rediscover :: string

record IndexDefinition =
  ix_Type :: string
  ix_OID :: string
  ix_Name :: string
  ix_Syntax :: string

record ObjectDefinition =
  od_Key :: string
  od_MIB :: string
  od_Object :: string
  od_Augments :: string
  od_Index :: "IndexDefinition list"
  od_DiscoveryAttribute :: string
  od_Attributes :: "(string \<times> AttributeDefinition) list"

text \<open>The decoder's \<open>normaliseOID\<close>: no surrounding space, no leading dot.\<close>

definition normaliseOID_decoder :: "string \<Rightarrow> string" where
  "normaliseOID_decoder oid = TrimPrefix (TrimSpace oid) ''.''"

type_synonym VarbindParser = "string \<rightharpoonup> AttributeDefinition"

fun buildAttrByOID :: "VarbindParser \<Rightarrow> AttributeDefinition list \<Rightarrow> error + VarbindParser" where
  "buildAttrByOID attrByOID [] = Inr attrByOID"
| "buildAttrByOID attrByOID (attr # rest) =
     (let norm = normaliseOID_decoder (ad_OID attr)
      in if norm = [] then Inl EmptyAttributeOID
         else buildAttrByOID (attrByOID(norm \<mapsto> attr)) rest)"

definition NewVarbindParser :: "ObjectDefinition \<Rightarrow> error + VarbindParser" where
  "NewVarbindParser def =
     (if length (od_Attributes def) = 0 then Inl NoAttributes
      else buildAttrByOID Map.empty (map snd (od_Attributes def)))"

text \<open>The prefix scan of \<open>matchAttribute\<close>: one arc is peeled off \<open>remaining\<close> per round.\<close>

function prefixScan :: "VarbindParser \<Rightarrow> string \<Rightarrow> string
    \<Rightarrow> (AttributeDefinition \<times> string) option" where
  "prefixScan attrByOID fullOID remaining =
     (case LastIndexDot remaining of
        None \<Rightarrow> None
      | Some dot \<Rightarrow>
          (let prefix = take dot remaining
           in case attrByOID prefix of
                Some a \<Rightarrow> Some (a, drop (length prefix + 1) fullOID)
              | None \<Rightarrow> prefixScan attrByOID fullOID prefix))"
  by pat_completeness auto
termination
proof (relation "measure (\<lambda>(attrByOID, fullOID, remaining). length remaining)")
  show "wf (measure (\<lambda>(attrByOID, fullOID, remaining). length remaining))"
    by simp
next
  fix attrByOID :: VarbindParser and fullOID remaining :: string and dot prefix
  assume dot: "LastIndexDot remaining = Some dot" and pre: "prefix = take dot remaining"
  have bound: "LastIndexDot s = Some i \<Longrightarrow> i < length s" for s i
    by (induction s arbitrary: i) (auto split: option.splits if_splits)
  from bound [OF dot] pre
  show "((attrByOID, fullOID, prefix), (attrByOID, fullOID, remaining))
          \<in> measure (\<lambda>(attrByOID, fullOID, remaining). length remaining)"
    by simp
qed

declare prefixScan.simps [simp del]

definition matchAttribute :: "VarbindParser \<Rightarrow> string \<Rightarrow> (AttributeDefinition \<times> string) option" where
  "matchAttribute attrByOID fullOID =
     (case attrByOID fullOID of
        Some a \<Rightarrow> Some (a, ''0'')
      | None \<Rightarrow> prefixScan attrByOID fullOID fullOID)"

definition IsErrorType :: "Asn1BER \<Rightarrow> bool" where
  "IsErrorType t = (t = NoSuchObject \<or> t = NoSuchInstance \<or> t = EndOfMibView \<or> t = Null)"

text \<open>
  \<open>Parse\<close> of the decoder. \<open>ConvertValue\<close> (unit scaling in floating point) and
  \<open>PDUTypeString\<close> are passed in as \<open>conv\<close> and \<open>typeStr\<close>; the first conversion
  that fails ends the loop with the varbinds decoded so far.
\<close>

fun ParseLoop :: "(Asn1BER \<Rightarrow> val \<Rightarrow> string \<Rightarrow> error + val) \<Rightarrow> (Asn1BER \<Rightarrow> string)
    \<Rightarrow> VarbindParser \<Rightarrow> DecodedVarbind list \<Rightarrow> SnmpPDU list
    \<Rightarrow> DecodedVarbind list \<times> error option" where
  "ParseLoop conv typeStr p result [] = (result, None)"
| "ParseLoop conv typeStr p result (pdu # rest) =
     (if IsErrorType (pdu_Type pdu) then ParseLoop conv typeStr p result rest
      else
        (let fullOID = normaliseOID_decoder (pdu_Name pdu)
         in case matchAttribute p fullOID of
              None \<Rightarrow> ParseLoop conv typeStr p result rest
            | Some (attr, instance) \<Rightarrow>
                (case conv (pdu_Type pdu) (pdu_Value pdu) (ad_Syntax attr) of
                   Inl e \<Rightarrow> (result, Some ConversionFailed)
                 | Inr convertedValue \<Rightarrow>
                     ParseLoop conv typeStr p
                       (result @ [\<lparr>vb_OID = fullOID, vb_AttributeName = ad_Name attr,
                                    vb_Instance = instance, vb_Value = convertedValue,
                                    vb_SNMPType = typeStr (pdu_Type pdu),
                                    vb_Syntax = ad_Syntax attr, vb_IsTag = ad_IsTag attr\<rparr>])
                       rest)))"

definition Parse_decoder :: "(Asn1BER \<Rightarrow> val \<Rightarrow> string \<Rightarrow> error + val) \<Rightarrow> (Asn1BER \<Rightarrow> string)
    \<Rightarrow> VarbindParser \<Rightarrow> SnmpPDU list \<Rightarrow> DecodedVarbind list \<times> error option" where
  "Parse_decoder conv typeStr p pdus = ParseLoop conv typeStr p [] pdus"

section \<open>Trap parser (snmp/trap)\<close>

datatype SnmpVersion = Version1 | Version2c | Version3 | VersionOther nat

text \<open>
  The fields of \<open>gosnmp.SnmpPacket\<close> that the parser reads. \<open>GenericTrap\<close> and
  \<open>SpecificTrap\<close> are Go \<open>int\<close>s; the only arithmetic on them is \<open>+ 1\<close> below 6.
\<close>

record SnmpPacket =
  pkt_Version :: SnmpVersion
  pkt_Variables :: "SnmpPDU list"
  pkt_Enterprise :: string
  pkt_AgentAddress :: string
  pkt_GenericTrap :: int
  pkt_SpecificTrap :: int

record TrapInfo =
  ti_Version :: string
  ti_EnterpriseOID :: string
  ti_GenericTrap :: "32 word"
  ti_SpecificTrap :: "32 word"
  ti_TrapOID :: string
  ti_TrapName :: string
  ti_Severity :: string

record SNMPTrap =
  tr_Timestamp :: time
  tr_Device :: Device
  tr_TrapInfo :: TrapInfo
  tr_Varbinds :: "Metric list"

definition oidSysUpTime :: string where
  "oidSysUpTime = ''.1.3.6.1.2.1.1.3.0''"

definition oidSnmpTrapOID :: string where
  "oidSnmpTrapOID = ''.1.3.6.1.6.3.1.1.4.1.0''"

text \<open>The trap package's \<open>normaliseOID\<close>: a leading dot, no trailing dot.\<close>

definition normaliseOID_trap :: "string \<Rightarrow> string" where
  "normaliseOID_trap oid0 =
     (let oid = TrimSpace oid0
      in if oid = [] then []
         else TrimSuffix (if \<not> HasPrefix oid ''.'' then ''.'' @ oid else oid) ''.'')"

definition snmpVersionString :: "SnmpVersion \<Rightarrow> string" where
  "snmpVersionString v =
     (case v of Version1 \<Rightarrow> ''1'' | Version2c \<Rightarrow> ''2c'' | Version3 \<Rightarrow> ''3''
      | VersionOther n \<Rightarrow> ''unknown'')"

definition emptyTrapInfo :: TrapInfo where
  "emptyTrapInfo = \<lparr>ti_Version = [], ti_EnterpriseOID = [], ti_GenericTrap = 0,
     ti_SpecificTrap = 0, ti_TrapOID = [], ti_TrapName = [], ti_Severity = []\<rparr>"

definition emptyDevice :: Device where
  "emptyDevice = \<lparr>Hostname = [], IPAddress = [], SNMPVersion = [], Vendor = [], Model = [],
     SysDescr = [], SysLocation = [], SysContact = [], Tags = []\<rparr>"

text \<open>\<open>remoteAddr\<close> is the sender's IP already printed by \<open>IP.String()\<close>, or nil.\<close>

definition deviceFromPacket :: "SnmpPacket \<Rightarrow> string option \<Rightarrow> Device" where
  "deviceFromPacket pkt remoteAddr =
     (let ip0 = (case remoteAddr of None \<Rightarrow> [] | Some a \<Rightarrow> a);
          ip = (if pkt_Version pkt = Version1 \<and> pkt_AgentAddress pkt \<noteq> []
                then pkt_AgentAddress pkt else ip0)
      in emptyDevice\<lparr>IPAddress := ip, SNMPVersion := snmpVersionString (pkt_Version pkt)\<rparr>)"

definition parsev1Info :: "SnmpPacket \<Rightarrow> TrapInfo" where
  "parsev1Info pkt =
     (let info = emptyTrapInfo\<lparr>ti_Version := ''v1'',
                   ti_EnterpriseOID := normaliseOID_trap (pkt_Enterprise pkt),
                   ti_GenericTrap := word_of_int (pkt_GenericTrap pkt),
                   ti_SpecificTrap := word_of_int (pkt_SpecificTrap pkt)\<rparr>
      in if pkt_GenericTrap pkt \<ge> 0 \<and> pkt_GenericTrap pkt < 6
         then info\<lparr>ti_TrapOID := ''.1.3.6.1.6.3.1.1.5.'' @ FormatInt (pkt_GenericTrap pkt + 1)\<rparr>
         else
           (let ent = TrimSuffix (normaliseOID_trap (pkt_Enterprise pkt)) ''.''
            in info\<lparr>ti_TrapOID := ent @ ''.0.'' @ FormatInt (pkt_SpecificTrap pkt)\<rparr>))"

text \<open>The search loop of \<open>parsev2Info\<close>: the index of the first varbind named snmpTrapOID.0.\<close>

fun findTrapOID :: "SnmpPDU list \<Rightarrow> nat option" where
  "findTrapOID [] = None"
| "findTrapOID (v # vs) =
     (if normaliseOID_trap (pdu_Name v) = oidSnmpTrapOID then Some 0
      else (case findTrapOID vs of None \<Rightarrow> None | Some i \<Rightarrow> Some (Suc i)))"

text \<open>\<open>fmtv\<close> is \<open>fmt.Sprintf("%v", _)\<close>. The error result of \<open>parsev2Info\<close> is always nil.\<close>

definition parsev2Info :: "(val \<Rightarrow> string) \<Rightarrow> SnmpPacket
    \<Rightarrow> TrapInfo \<times> SnmpPDU list \<times> error option" where
  "parsev2Info fmtv pkt =
     (let info = emptyTrapInfo\<lparr>ti_Version := ''v'' @ snmpVersionString (pkt_Version pkt)\<rparr>;
          vars = pkt_Variables pkt
      in case findTrapOID vars of
           None \<Rightarrow> (info, vars, None)
         | Some trapOIDIdx \<Rightarrow>
             (info\<lparr>ti_TrapOID := normaliseOID_trap (fmtv (pdu_Value (vars ! trapOIDIdx)))\<rparr>,
              drop (trapOIDIdx + 1) vars, None))"

definition isErrorPDU :: "Asn1BER \<Rightarrow> bool" where
  "isErrorPDU t = (t = NoSuchObject \<or> t = NoSuchInstance \<or> t = EndOfMibView \<or> t = Null)"

text \<open>\<open>convertPDUValue\<close> and \<open>pduTypeString\<close> are passed in as \<open>convVal\<close> and \<open>typeStr\<close>.\<close>

definition convertVarbinds :: "(SnmpPDU \<Rightarrow> val) \<Rightarrow> (Asn1BER \<Rightarrow> string) \<Rightarrow> SnmpPDU list
    \<Rightarrow> Metric list" where
  "convertVarbinds convVal typeStr pdus =
     map (\<lambda>pdu. \<lparr>m_OID = normaliseOID_trap (pdu_Name pdu), m_Name = pdu_Name pdu,
                  m_Instance = [], m_Value = convVal pdu, m_Type = typeStr (pdu_Type pdu),
                  m_Syntax = [], m_Tags = []\<rparr>)
       (filter (\<lambda>pdu. \<not> isErrorPDU (pdu_Type pdu)) pdus)"

definition Parse_trap :: "(val \<Rightarrow> string) \<Rightarrow> (SnmpPDU \<Rightarrow> val) \<Rightarrow> (Asn1BER \<Rightarrow> string) \<Rightarrow> time
    \<Rightarrow> SnmpPacket option \<Rightarrow> string option \<Rightarrow> SNMPTrap \<times> error option" where
  "Parse_trap fmtv convVal typeStr clock pkt0 remoteAddr =
     (case pkt0 of
        None \<Rightarrow> (\<lparr>tr_Timestamp = 0, tr_Device = emptyDevice, tr_TrapInfo = emptyTrapInfo,
                   tr_Varbinds = []\<rparr>, Some NilPacket)
      | Some pkt \<Rightarrow>
          (let trap = \<lparr>tr_Timestamp = clock, tr_Device = deviceFromPacket pkt remoteAddr,
                        tr_TrapInfo = emptyTrapInfo, tr_Varbinds = []\<rparr>
           in case pkt_Version pkt of
                Version1 \<Rightarrow>
                  (trap\<lparr>tr_TrapInfo := parsev1Info pkt,
                         tr_Varbinds := convertVarbinds convVal typeStr (pkt_Variables pkt)\<rparr>, None)
              | VersionOther n \<Rightarrow> (trap, Some UnsupportedVersion)
              | _ \<Rightarrow>
                  (case parsev2Info fmtv pkt of
                     (info, remaining, Some err) \<Rightarrow> (trap, Some err)
                   | (info, remaining, None) \<Rightarrow>
                       (trap\<lparr>tr_TrapInfo := info,
                              tr_Varbinds := convertVarbinds convVal typeStr remaining\<rparr>, None))))"

section \<open>Scheduler: job resolution (pkg/snmpcollector/scheduler/resolve.go)\<close>

record V3Credentials =
  v3_Username :: string
  v3_AuthenticationProtocol :: string
  v3_AuthenticationPassphrase :: string
  v3_PrivacyProtocol :: string
  v3_PrivacyPassphrase :: string

record DeviceConfig =
  dc_IP :: string
  dc_Port :: int
  dc_PollInterval :: int
  dc_Timeout :: int
  dc_Retries :: int
  dc_ExponentialTimeout :: bool
  dc_Version :: string
  dc_Communities :: "string list"
  dc_V3Credentials :: "V3Credentials list"
  dc_DeviceGroups :: "string list"
  dc_MaxConcurrentPolls :: int

record DeviceGroup =
  dg_ObjectGroups :: "string list"

record ObjectGroup =
  og_Objects :: "string list"

text \<open>
  The maps of \<open>LoadedConfig\<close> that \<open>ResolveJobs\<close> reads. \<open>Devices\<close> is iterated, so it is an
  association list (the first pair of a key counts); the others are only looked up.
\<close>

record LoadedConfig =
  cfg_Devices :: "(string \<times> DeviceConfig) list"
  cfg_DeviceGroups :: "string \<rightharpoonup> DeviceGroup"
  cfg_ObjectGroups :: "string \<rightharpoonup> ObjectGroup"
  cfg_ObjectDefs :: "string \<rightharpoonup> ObjectDefinition"

record PollJob =
  pj_Hostname :: string
  pj_Device :: Device
  pj_DeviceConfig :: DeviceConfig
  pj_ObjectDef :: ObjectDefinition

text \<open>The innermost loop body: \<open>seen\<close> is the set of keys of the Go map \<open>seen\<close>.\<close>

definition objectStep :: "LoadedConfig \<Rightarrow> string \<Rightarrow> Device \<Rightarrow> DeviceConfig
    \<Rightarrow> string set \<times> PollJob list \<Rightarrow> string \<Rightarrow> string set \<times> PollJob list" where
  "objectStep cfg hostname dev devCfg acc objKey =
     (case acc of (seen, jobs) \<Rightarrow>
        if objKey \<in> seen then (seen, jobs)
        else
          (case cfg_ObjectDefs cfg objKey of
             None \<Rightarrow> (insert objKey seen, jobs)
           | Some objDef \<Rightarrow>
               (insert objKey seen,
                jobs @ [\<lparr>pj_Hostname = hostname, pj_Device = dev, pj_DeviceConfig = devCfg,
                          pj_ObjectDef = objDef\<rparr>])))"

definition objectGroupStep :: "LoadedConfig \<Rightarrow> string \<Rightarrow> Device \<Rightarrow> DeviceConfig
    \<Rightarrow> string set \<times> PollJob list \<Rightarrow> string \<Rightarrow> string set \<times> PollJob list" where
  "objectGroupStep cfg hostname dev devCfg acc ogName =
     (case cfg_ObjectGroups cfg ogName of
        None \<Rightarrow> acc
      | Some og \<Rightarrow> foldl (objectStep cfg hostname dev devCfg) acc (og_Objects og))"

definition deviceGroupStep :: "LoadedConfig \<Rightarrow> string \<Rightarrow> Device \<Rightarrow> DeviceConfig
    \<Rightarrow> string set \<times> PollJob list \<Rightarrow> string \<Rightarrow> string set \<times> PollJob list" where
  "deviceGroupStep cfg hostname dev devCfg acc dgName =
     (case cfg_DeviceGroups cfg dgName of
        None \<Rightarrow> acc
      | Some dg \<Rightarrow> foldl (objectGroupStep cfg hostname dev devCfg) acc (dg_ObjectGroups dg))"

definition deviceStep :: "LoadedConfig \<Rightarrow> PollJob list \<Rightarrow> string \<Rightarrow> PollJob list" where
  "deviceStep cfg jobs hostname =
     (case map_of (cfg_Devices cfg) hostname of
        None \<Rightarrow> jobs
      | Some devCfg \<Rightarrow>
          (let dev = emptyDevice\<lparr>Hostname := hostname, IPAddress := dc_IP devCfg,
                       SNMPVersion := dc_Version devCfg\<rparr>
           in snd (foldl (deviceGroupStep cfg hostname dev devCfg) ({}, jobs)
                     (dc_DeviceGroups devCfg))))"

definition ResolveJobs :: "LoadedConfig option \<Rightarrow> PollJob list" where
  "ResolveJobs cfg0 =
     (case cfg0 of
        None \<Rightarrow> []
      | Some cfg \<Rightarrow> foldl (deviceStep cfg) [] (sort (remdups (map fst (cfg_Devices cfg)))))"

section \<open>Connection pool (pkg/snmpcollector/poller/session.go)\<close>

text \<open>
  A session pointer is its identity \<open>gs_id\<close> and whether \<open>Conn\<close> is non-nil. The
  semaphore channel of a device is the number of slots held and its capacity. The closed
  channel is a flag, and every \<open>Conn.Close()\<close> is recorded in \<open>cp_closedConns\<close>.
\<close>

record GoSNMP =
  gs_id :: nat
  gs_hasConn :: bool

record poolEntry =
  pe_conn :: GoSNMP
  pe_returnedAt :: time

record devicePool =
  dp_idle :: "poolEntry list"
  dp_sem :: nat
  dp_cap :: nat

record PoolOptions =
  po_MaxIdlePerDevice :: int
  po_IdleTimeout :: duration

record ConnectionPool =
  cp_opts :: PoolOptions
  cp_pools :: "(string \<times> devicePool) list"
  cp_closed :: bool
  cp_closedConns :: "GoSNMP list"

text \<open>A call either returns or waits on the semaphore channel for another goroutine.\<close>

datatype 'a outcome = Returned 'a | Blocked

definition defaults :: "PoolOptions \<Rightarrow> PoolOptions" where
  "defaults opts =
     (if po_MaxIdlePerDevice opts \<le> 0 then opts\<lparr>po_MaxIdlePerDevice := 2\<rparr> else opts)"

definition NewConnectionPool :: "PoolOptions \<Rightarrow> ConnectionPool" where
  "NewConnectionPool opts =
     \<lparr>cp_opts = defaults opts, cp_pools = [], cp_closed = False, cp_closedConns = []\<rparr>"

definition closeConn :: "GoSNMP \<Rightarrow> GoSNMP list \<Rightarrow> GoSNMP list" where
  "closeConn conn closedConns = (if gs_hasConn conn then closedConns @ [conn] else closedConns)"

definition getOrCreatePool :: "ConnectionPool \<Rightarrow> string \<Rightarrow> int \<Rightarrow> devicePool \<times> ConnectionPool" where
  "getOrCreatePool p hostname maxConcurrent0 =
     (case map_of (cp_pools p) hostname of
        Some dp \<Rightarrow> (dp, p)
      | None \<Rightarrow>
          (let maxConcurrent = (if maxConcurrent0 \<le> 0 then 4 else maxConcurrent0);
               dp = \<lparr>dp_idle = [], dp_sem = 0, dp_cap = nat maxConcurrent\<rparr>
           in (dp, p\<lparr>cp_pools := AList.update hostname dp (cp_pools p)\<rparr>)))"

definition getPool :: "ConnectionPool \<Rightarrow> string \<Rightarrow> devicePool option" where
  "getPool p hostname = map_of (cp_pools p) hostname"

fun popIdle :: "duration \<Rightarrow> time \<Rightarrow> poolEntry list \<Rightarrow> GoSNMP list
    \<Rightarrow> GoSNMP option \<times> poolEntry list \<times> GoSNMP list" where
  "popIdle idleTimeout now idle closedConns =
     (if length idle > 0 then
        (if idleTimeout > 0 \<and> Sub now (pe_returnedAt (idle ! (length idle - 1))) > idleTimeout
         then popIdle idleTimeout now (take (length idle - 1) idle)
                (closeConn (pe_conn (idle ! (length idle - 1))) closedConns)
         else (Some (pe_conn (idle ! (length idle - 1))), take (length idle - 1) idle, closedConns))
      else (None, idle, closedConns))"

declare popIdle.simps [simp del]

text \<open>
  \<open>Get\<close>. \<open>ctxDone\<close> says whether the context is cancelled, \<open>pick\<close> which ready case the
  \<open>select\<close> takes when both the semaphore and the context are ready, \<open>now\<close> is the clock
  and \<open>dialed\<close> what \<open>opts.Dial(cfg)\<close> returns when it is called.
\<close>

definition Get :: "ConnectionPool \<Rightarrow> bool \<Rightarrow> bool \<Rightarrow> time \<Rightarrow> string \<Rightarrow> DeviceConfig
    \<Rightarrow> error + GoSNMP \<Rightarrow> (error + GoSNMP) outcome \<times> ConnectionPool" where
  "Get p ctxDone pick now hostname cfg dialed =
     (case getOrCreatePool p hostname (dc_MaxConcurrentPolls cfg) of (dp, p1) \<Rightarrow>
        if cp_closed p1 then (Returned (Inl PoolClosed), p1)
        else if \<not> dp_sem dp < dp_cap dp \<and> \<not> ctxDone then (Blocked, p1)
        else if ctxDone \<and> (\<not> dp_sem dp < dp_cap dp \<or> \<not> pick)
          then (Returned (Inl ContextDone), p1)
        else
          (case popIdle (po_IdleTimeout (cp_opts p1)) now (dp_idle dp) (cp_closedConns p1) of
             (Some conn, idle', closed') \<Rightarrow>
               (Returned (Inr conn),
                p1\<lparr>cp_pools := AList.update hostname
                                   (dp\<lparr>dp_idle := idle', dp_sem := dp_sem dp + 1\<rparr>) (cp_pools p1),
                    cp_closedConns := closed'\<rparr>)
           | (None, idle', closed') \<Rightarrow>
               (case dialed of
                  Inl err \<Rightarrow>
                    (Returned (Inl err),
                     p1\<lparr>cp_pools := AList.update hostname (dp\<lparr>dp_idle := idle'\<rparr>) (cp_pools p1),
                         cp_closedConns := closed'\<rparr>)
                | Inr conn \<Rightarrow>
                    (Returned (Inr conn),
                     p1\<lparr>cp_pools := AList.update hostname
                                        (dp\<lparr>dp_idle := idle', dp_sem := dp_sem dp + 1\<rparr>)
                                        (cp_pools p1),
                         cp_closedConns := closed'\<rparr>))))"

text \<open>
  \<open>Put\<close>. The deferred receive from the semaphore runs last and waits when no slot is
  held; the state at that point is returned with \<open>Blocked\<close>.
\<close>

definition Put :: "ConnectionPool \<Rightarrow> time \<Rightarrow> string \<Rightarrow> GoSNMP \<Rightarrow> unit outcome \<times> ConnectionPool" where
  "Put p now hostname conn =
     (case getPool p hostname of
        None \<Rightarrow> (Returned (), p\<lparr>cp_closedConns := closeConn conn (cp_closedConns p)\<rparr>)
      | Some dp \<Rightarrow>
          (let (dp1, closed1) =
                 (if int (length (dp_idle dp)) \<ge> po_MaxIdlePerDevice (cp_opts p)
                  then (dp, closeConn conn (cp_closedConns p))
                  else (dp\<lparr>dp_idle := dp_idle dp @ [\<lparr>pe_conn = conn, pe_returnedAt = now\<rparr>]\<rparr>,
                        cp_closedConns p))
           in if dp_sem dp1 = 0
              then (Blocked, p\<lparr>cp_pools := AList.update hostname dp1 (cp_pools p),
                                cp_closedConns := closed1\<rparr>)
              else (Returned (),
                    p\<lparr>cp_pools := AList.update hostname (dp1\<lparr>dp_sem := dp_sem dp1 - 1\<rparr>)
                                      (cp_pools p),
                       cp_closedConns := closed1\<rparr>)))"

definition Discard :: "ConnectionPool \<Rightarrow> string \<Rightarrow> GoSNMP \<Rightarrow> unit outcome \<times> ConnectionPool" where
  "Discard p hostname conn =
     (let p1 = p\<lparr>cp_closedConns := closeConn conn (cp_closedConns p)\<rparr>
      in case getPool p1 hostname of
           None \<Rightarrow> (Returned (), p1)
         | Some dp \<Rightarrow>
             if dp_sem dp = 0 then (Blocked, p1)
             else (Returned (),
                   p1\<lparr>cp_pools := AList.update hostname (dp\<lparr>dp_sem := dp_sem dp - 1\<rparr>)
                                      (cp_pools p1)\<rparr>))"

definition Close :: "ConnectionPool \<Rightarrow> ConnectionPool" where
  "Close p =
     (if cp_closed p then p
      else p\<lparr>cp_closed := True,
             cp_closedConns :=
               foldl (\<lambda>closedConns (hostname, dp).
                        foldl (\<lambda>cs e. closeConn (pe_conn e) cs) closedConns (dp_idle dp))
                 (cp_closedConns p) (cp_pools p),
             cp_pools := map (\<lambda>(hostname, dp). (hostname, dp\<lparr>dp_idle := []\<rparr>)) (cp_pools p)\<rparr>)"

section \<open>Auxiliary notions for the proofs about Build\<close>

text \<open>
  The nested loops of \<open>Build\<close> over \<open>resolved\<close> visit the pairs (instance, winning varbind)
  of \<open>flat resolved\<close> one after the other; \<open>stepF\<close> is the loop body on such a pair.
  \<open>cands vbs i\<close> are the measurement varbinds of instance \<open>i\<close> in input order and
  \<open>named n\<close> those of them with output name \<open>n\<close>; \<open>firstMax cs w\<close> says that \<open>w\<close> is the
  first element of \<open>cs\<close> whose syntax priority is maximal.
\<close>

definition namedOK :: "(string \<times> DecodedVarbind) list \<Rightarrow> bool" where
  "namedOK byName = (distinct (map fst byName) \<and> (\<forall>p \<in> set byName. vb_AttributeName (snd p) = fst p))"

definition flat :: "(string \<times> (string \<times> DecodedVarbind) list) list \<Rightarrow> (string \<times> DecodedVarbind) list" where
  "flat resolved = concat (map (\<lambda>(instance, byName). map (\<lambda>vb. (instance, vb)) (map snd byName)) resolved)"

definition keyPair :: "string \<times> DecodedVarbind \<Rightarrow> string \<times> string" where
  "keyPair x = (fst x, vb_AttributeName (snd x))"

definition stepF :: "EnumRegistry option \<Rightarrow> string \<Rightarrow> time \<Rightarrow> tagMap
    \<Rightarrow> Metric list \<times> CounterState option \<Rightarrow> string \<times> DecodedVarbind
    \<Rightarrow> Metric list \<times> CounterState option" where
  "stepF e h now T acc x = emitMetric e h now (fst x) (getOrNil T (fst x)) acc (snd x)"

definition mkey :: "Metric \<Rightarrow> string \<times> string" where
  "mkey m = (m_Instance m, m_Name m)"

definition resolvedOf :: "(val \<Rightarrow> string) \<Rightarrow> DecodedPollResult
    \<Rightarrow> (string \<times> (string \<times> DecodedVarbind) list) list" where
  "resolvedOf fmtv decoded =
     map (\<lambda>(instance, vbs). (instance, resolveInstance vbs))
       (snd (foldl (partitionStep fmtv) ([], []) (d_Varbinds decoded)))"













section \<open>Scenario inputs\<close>

text \<open>
  Scenario S3 of the specification: one Counter32 measurement \<open>netif.bytes.in\<close> of
  interface 1 on device \<open>sw1\<close>, collected at time \<open>t\<close> with raw value \<open>v\<close>.
\<close>

definition S3_key :: CounterKey where
  "S3_key = \<lparr>ck_Device = ''sw1'', ck_Attribute = ''netif.bytes.in'', ck_Instance = ''1''\<rparr>"

definition S3_varbind :: "uint64 \<Rightarrow> DecodedVarbind" where
  "S3_varbind v =
     \<lparr>vb_OID = ''1.3.6.1.2.1.2.2.1.10.1'', vb_AttributeName = ''netif.bytes.in'',
      vb_Instance = ''1'', vb_Value = VUint64 v, vb_SNMPType = ''Counter32'',
      vb_Syntax = ''Counter32'', vb_IsTag = False\<rparr>"

definition S3_decoded :: "time \<Rightarrow> uint64 \<Rightarrow> DecodedPollResult" where
  "S3_decoded t v =
     \<lparr>d_Device = emptyDevice\<lparr>Hostname := ''sw1''\<rparr>, d_ObjectDefKey = ''IF-MIB::ifEntry'',
      d_Varbinds = [S3_varbind v], d_CollectedAt = t, d_PollDurationMs = 0\<rparr>"

definition S3_opts :: "CounterState option \<Rightarrow> BuildOptions" where
  "S3_opts c =
     \<lparr>o_CollectorID = ''c1'', o_PollStatus = ''success'', o_Enums = None, o_Counters = c\<rparr>"


section \<open>Counter delta: basic facts\<close>

lemma map_of_Delta:
  "map_of (snd (Delta s key current now wrap)) =
     (map_of s)(key \<mapsto> \<lparr>ce_Value = current, ce_SeenAt = now\<rparr>)"
  by (simp add: Delta_def Let_def update_conv' split: option.split)


lemma fst_Delta_Some:
  "map_of s key = Some p \<Longrightarrow>
   fst (Delta s key current now wrap) =
     (if Sub now (ce_SeenAt p) \<le> 0 then invalidResult
      else \<lparr>dr_Delta = (if current \<ge> ce_Value p then current - ce_Value p
                         else (wrap - ce_Value p) + current + 1),
             dr_Elapsed = Sub now (ce_SeenAt p), dr_Valid = True\<rparr>)"
  by (simp add: Delta_def Let_def)

lemma Sub_60: "Sub (t0 + 60 * Second) t0 = 60 * Second"
  by (simp add: Sub_def Second_def maxDuration_def minDuration_def)

lemma Delta_after_seed:
  "fst (Delta (snd (Delta s key seed t0 wrap)) key current (t0 + 60 * Second) wrap) =
     \<lparr>dr_Delta = (if current \<ge> seed then current - seed else (wrap - seed) + current + 1),
      dr_Elapsed = 60 * Second, dr_Valid = True\<rparr>"
proof -
  have "map_of (snd (Delta s key seed t0 wrap)) key = Some \<lparr>ce_Value = seed, ce_SeenAt = t0\<rparr>"
    by (simp add: map_of_Delta)
  from fst_Delta_Some [OF this] show ?thesis
    by (simp add: Sub_60) (simp add: Second_def)
qed

lemma Build_S3:
  "t \<noteq> 0 \<Longrightarrow>
   map m_Value (sm_Metrics (fst (Build fmtv clock (S3_decoded t v) (S3_opts (Some s))))) =
     [if dr_Valid (fst (Delta s S3_key v t 4294967295))
      then VUint64 (dr_Delta (fst (Delta s S3_key v t 4294967295))) else VUint64 0]
   \<and> snd (Build fmtv clock (S3_decoded t v) (S3_opts (Some s))) =
       Some (snd (Delta s S3_key v t 4294967295))"
  by (simp add: Build_def S3_decoded_def S3_opts_def S3_varbind_def partitionStep_def
      getOrNil_def resolveInstance_def overrideStep_def emitMetric_def buildMetric_def
      emptyDevice_def IsCounterSyntax_def toUint64Safe_def WrapForSyntax_def S3_key_def
      split_def Let_def)

lemma Build_S3_twice:
  assumes "t0 \<noteq> 0" and "t0 + 60 * Second \<noteq> 0"
  shows "map m_Value (sm_Metrics (fst (Build fmtv clock (S3_decoded (t0 + 60 * Second) current)
            (S3_opts (snd (Build fmtv clock (S3_decoded t0 seed) (S3_opts (Some s))))))))
         = [VUint64 (if current \<ge> seed then current - seed
                     else (4294967295 - seed) + current + 1)]"
proof -
  have first: "snd (Build fmtv clock (S3_decoded t0 seed) (S3_opts (Some s))) =
      Some (snd (Delta s S3_key seed t0 4294967295))"
    using Build_S3 [OF assms(1)] by simp
  show ?thesis
    unfolding first using Build_S3 [OF assms(2), of fmtv clock current]
    by (simp add: Delta_after_seed)
qed

section \<open>C1: counter delta across a Counter32 wrap\<close>

text \<open>
  C1, as stated, fails. The claim says that a Counter32 key seeded with \<open>2^32 - 100\<close> and
  observed 60 s later with 400 is emitted with value 501. On the concrete run below (seed at
  nanosecond 1000, empty counter state) \<open>Build\<close> emits 500, not 501: the wrap rule gives
  \<open>(4294967295 - 4294967196) + 400 + 1 = 99 + 400 + 1\<close>.
\<close>

theorem C1_counterexample:
  "map m_Value (sm_Metrics (fst (Build (\<lambda>v. []) 0 (S3_decoded (1000 + 60 * Second) 400)
      (S3_opts (snd (Build (\<lambda>v. []) 0 (S3_decoded 1000 4294967196)
                       (S3_opts (Some NewCounterState))))))))
     = [VUint64 500]
   \<and> VUint64 500 \<noteq> VUint64 501"
proof -
  have "(1000::int) \<noteq> 0" and "(1000::int) + 60 * Second \<noteq> 0"
    by (simp_all add: Second_def)
  from Build_S3_twice [OF this, of "\<lambda>v. []" 0 400 4294967196 NewCounterState]
  show ?thesis by simp
qed

text \<open>
  C1, amended. With counter state enabled (any prior state \<open>s\<close>), for the Counter32 key of
  scenario S3 seeded at time \<open>t0\<close> with value \<open>2^32 - 100 = 4294967196\<close> and observed again
  at \<open>t0 + 60 s\<close> with value 400, the metric emitted by the second \<open>Build\<close> has value exactly
  500, and the \<open>Delta\<close> call reports delta 500, elapsed 60 s and Valid, per the wrap rule
  \<open>delta = (wrap_max - previous) + current + 1\<close> with \<open>wrap_max = 2^32 - 1\<close>. The value 501
  is what the same rule gives for the seed \<open>wrap_max - 100 = 4294967195\<close>.
\<close>

theorem C1_counter32_wrap_delta:
  assumes "t0 \<noteq> 0" and "t0 + 60 * Second \<noteq> 0"
  shows "map m_Value (sm_Metrics (fst (Build fmtv clock (S3_decoded (t0 + 60 * Second) 400)
            (S3_opts (snd (Build fmtv clock (S3_decoded t0 4294967196) (S3_opts (Some s))))))))
           = [VUint64 500]
         \<and> fst (Delta (snd (Delta s S3_key 4294967196 t0 (WrapForSyntax ''Counter32'')))
                  S3_key 400 (t0 + 60 * Second) (WrapForSyntax ''Counter32''))
           = \<lparr>dr_Delta = 500, dr_Elapsed = 60 * Second, dr_Valid = True\<rparr>
         \<and> fst (Delta (snd (Delta s S3_key 4294967195 t0 (WrapForSyntax ''Counter32'')))
                  S3_key 400 (t0 + 60 * Second) (WrapForSyntax ''Counter32''))
           = \<lparr>dr_Delta = 501, dr_Elapsed = 60 * Second, dr_Valid = True\<rparr>"
  using Build_S3_twice [OF assms, of fmtv clock 400 4294967196 s]
  by (simp add: Delta_after_seed WrapForSyntax_def)

theorem C1_counter32_wrap_delta_witness:
  "(1000::int) \<noteq> 0
   \<and> map m_Value (sm_Metrics (fst (Build (\<lambda>v. []) 0 (S3_decoded (1000 + 60 * Second) 400)
        (S3_opts (snd (Build (\<lambda>v. []) 0 (S3_decoded 1000 4294967196) (S3_opts (Some []))))))))
       = [VUint64 500]"
proof -
  have h: "(1000::int) \<noteq> 0" "(1000::int) + 60 * Second \<noteq> 0"
    by (simp_all add: Second_def)
  from C1_counter32_wrap_delta [OF h, of "\<lambda>v. []" 0 "[]"]
  show ?thesis by simp
qed

section \<open>Producer: the structure of Build\<close>

lemma partitionStep_distinct:
  "distinct (map fst (snd acc)) \<Longrightarrow> distinct (map fst (snd (partitionStep fmtv acc vb)))"
  by (cases acc) (simp add: partitionStep_def distinct_update)

lemma partition_distinct:
  "distinct (map fst (snd acc)) \<Longrightarrow> distinct (map fst (snd (foldl (partitionStep fmtv) acc vbs)))"
  by (induction vbs arbitrary: acc) (simp_all add: partitionStep_distinct)

lemma set_update_subset: "set (AList.update k v al) \<subseteq> insert (k, v) (set al)"
  by (induction al) auto

lemma namedOK_update:
  "namedOK byName \<Longrightarrow> namedOK (AList.update (vb_AttributeName vb) vb byName)"
  unfolding namedOK_def using set_update_subset [of "vb_AttributeName vb" vb byName]
  by (auto simp: distinct_update)

lemma overrideStep_namedOK: "namedOK byName \<Longrightarrow> namedOK (overrideStep byName vb)"
  by (simp add: overrideStep_def namedOK_update split: option.split)

lemma foldl_override_namedOK: "namedOK byName \<Longrightarrow> namedOK (foldl overrideStep byName vbs)"
  by (induction vbs arbitrary: byName) (simp_all add: overrideStep_namedOK)

lemma resolveInstance_namedOK: "namedOK (resolveInstance vbs)"
proof -
  have "namedOK []" by (simp add: namedOK_def)
  then show ?thesis unfolding resolveInstance_def by (rule foldl_override_namedOK)
qed

lemma flat_Nil: "flat [] = []"
  by (simp add: flat_def)

lemma flat_Cons: "flat ((i, byName) # rs) = map (\<lambda>vb. (i, vb)) (map snd byName) @ flat rs"
  by (simp add: flat_def)

lemma foldl_inner:
  "foldl (f i) acc (map snd byName) = foldl (\<lambda>acc x. f (fst x) acc (snd x)) acc (map (\<lambda>vb. (i, vb)) (map snd byName))"
  by (induction byName arbitrary: acc) simp_all

lemma foldl_flat:
  "foldl (\<lambda>acc (instance, byName). foldl (f instance) acc (map snd byName)) acc resolved
     = foldl (\<lambda>acc x. f (fst x) acc (snd x)) acc (flat resolved)"
proof (induction resolved arbitrary: acc)
  case Nil
  show ?case by (simp add: flat_Nil)
next
  case (Cons r rs)
  obtain i byName where r: "r = (i, byName)" by (cases r)
  show ?case
    using Cons.IH by (simp add: r flat_Cons foldl_inner [of f i])
qed

lemma fst_keyPair_flat: "x \<in> set (flat rs) \<Longrightarrow> fst x \<in> fst ` set rs"
proof (induction rs)
  case Nil
  then show ?case by (simp add: flat_Nil)
next
  case (Cons r rs)
  obtain i byName where r: "r = (i, byName)" by (cases r)
  from Cons show ?case by (auto simp: r flat_Cons)
qed

lemma distinct_flat_keys:
  "distinct (map fst resolved) \<Longrightarrow> \<forall>r \<in> set resolved. namedOK (snd r) \<Longrightarrow>
   distinct (map keyPair (flat resolved))"
proof (induction resolved)
  case Nil
  show ?case by (simp add: flat_Nil)
next
  case (Cons r rs)
  obtain i byName where r: "r = (i, byName)" by (cases r)
  have ok: "namedOK byName" using Cons.prems(2) by (simp add: r)
  have names: "map keyPair (map (\<lambda>vb. (i, vb)) (map snd byName)) = map (Pair i) (map fst byName)"
    using ok by (simp add: namedOK_def keyPair_def)
  have d1: "distinct (map (Pair i) (map fst byName))"
    using ok by (simp add: namedOK_def distinct_map inj_on_def)
  have inot: "i \<notin> fst ` set rs" using Cons.prems(1) by (simp add: r)
  have disj: "set (map (Pair i) (map fst byName)) \<inter> set (map keyPair (flat rs)) = {}"
  proof (rule ccontr)
    assume "set (map (Pair i) (map fst byName)) \<inter> set (map keyPair (flat rs)) \<noteq> {}"
    then obtain k where k1: "k \<in> set (map (Pair i) (map fst byName))"
      and k2: "k \<in> set (map keyPair (flat rs))" by blast
    from k1 have "fst k = i" by auto
    moreover from k2 obtain x where "x \<in> set (flat rs)" "k = keyPair x" by auto
    then have "fst k \<in> fst ` set rs" using fst_keyPair_flat [of x rs] by (simp add: keyPair_def)
    ultimately show False using inot by simp
  qed
  have dtail: "distinct (map keyPair (flat rs))"
    using Cons by simp
  have "map keyPair (flat (r # rs)) = map (Pair i) (map fst byName) @ map keyPair (flat rs)"
    using names by (simp add: r flat_Cons)
  with d1 disj dtail show ?case by simp
qed


lemma buildMetric_fields:
  "m_Name (fst (buildMetric e h now i tags c vb)) = vb_AttributeName vb"
  "m_Instance (fst (buildMetric e h now i tags c vb)) = i"
  "m_Syntax (fst (buildMetric e h now i tags c vb)) = vb_Syntax vb"
  "m_OID (fst (buildMetric e h now i tags c vb)) = vb_OID vb"
  by (simp_all add: buildMetric_def Let_def split_def)

lemma buildMetric_None: "snd (buildMetric e h now i tags None vb) = None"
  by (simp add: buildMetric_def Let_def split_def)



lemma stepF_eq:
  "stepF e h now T (ms, c) x =
     (ms @ [fst (buildMetric e h now (fst x) (getOrNil T (fst x)) c (snd x))],
      snd (buildMetric e h now (fst x) (getOrNil T (fst x)) c (snd x)))"
  by (simp add: stepF_def emitMetric_def split_def)

lemma foldl_stepF_keys:
  "map mkey (fst (foldl (stepF e h now T) (ms, c) xs)) = map mkey ms @ map keyPair xs"
proof (induction xs arbitrary: ms c)
  case Nil
  show ?case by simp
next
  case (Cons x xs)
  show ?case
    by (simp add: stepF_eq Cons.IH) (simp add: mkey_def keyPair_def buildMetric_fields)
qed


lemma stepF_fun:
  "(\<lambda>acc x. emitMetric e h now (fst x) (getOrNil T (fst x)) acc (snd x)) = stepF e h now T"
  by (intro ext) (simp add: stepF_def)

lemma Build_metrics:
  "sm_Metrics (fst (Build fmtv clock decoded opts)) =
     fst (foldl (stepF (o_Enums opts) (Hostname (d_Device decoded))
                  (if d_CollectedAt decoded = 0 then clock else d_CollectedAt decoded)
                  (fst (foldl (partitionStep fmtv) ([], []) (d_Varbinds decoded))))
            ([], o_Counters opts) (flat (resolvedOf fmtv decoded)))"
proof -
  let ?e = "o_Enums opts" and ?h = "Hostname (d_Device decoded)"
  let ?now = "if d_CollectedAt decoded = 0 then clock else d_CollectedAt decoded"
  let ?T = "fst (foldl (partitionStep fmtv) ([], []) (d_Varbinds decoded))"
  have "foldl (\<lambda>acc (instance, byName).
                 foldl (emitMetric ?e ?h ?now instance (getOrNil ?T instance)) acc (map snd byName))
          ([], o_Counters opts) (resolvedOf fmtv decoded)
        = foldl (stepF ?e ?h ?now ?T) ([], o_Counters opts) (flat (resolvedOf fmtv decoded))"
    using foldl_flat [of "\<lambda>i. emitMetric ?e ?h ?now i (getOrNil ?T i)" "([], o_Counters opts)"
        "resolvedOf fmtv decoded"]
    by (simp only: stepF_fun)
  then show ?thesis
    by (simp add: Build_def Let_def split_def resolvedOf_def)
qed

lemma resolvedOf_keys: "distinct (map keyPair (flat (resolvedOf fmtv decoded)))"
proof (rule distinct_flat_keys)
  have "map fst (resolvedOf fmtv decoded) =
        map fst (snd (foldl (partitionStep fmtv) ([], []) (d_Varbinds decoded)))"
    by (simp add: resolvedOf_def split_def comp_def)
  moreover have "distinct (map fst (snd (foldl (partitionStep fmtv) ([], []) (d_Varbinds decoded))))"
    by (rule partition_distinct) simp
  ultimately show "distinct (map fst (resolvedOf fmtv decoded))" by simp
next
  show "\<forall>r \<in> set (resolvedOf fmtv decoded). namedOK (snd r)"
    by (auto simp: resolvedOf_def resolveInstance_namedOK)
qed


















section \<open>C3: override resolution by syntax priority\<close>







section \<open>C4: one metric per instance and name\<close>

text \<open>
  C4. For every decoded poll result and all options, the pairs (instance, name) of the
  metrics in the batch that \<open>Build\<close> returns are pairwise distinct.
\<close>

theorem C4_unique_instance_name:
  "distinct (map (\<lambda>m. (m_Instance m, m_Name m)) (sm_Metrics (fst (Build fmtv clock decoded opts))))"
proof -
  have "map mkey (sm_Metrics (fst (Build fmtv clock decoded opts)))
          = map keyPair (flat (resolvedOf fmtv decoded))"
    unfolding Build_metrics using foldl_stepF_keys [of _ _ _ _ "[]"] by simp
  then have "distinct (map mkey (sm_Metrics (fst (Build fmtv clock decoded opts))))"
    by (simp only: resolvedOf_keys)
  then show ?thesis by (simp add: mkey_def [abs_def])
qed


section \<open>C5: a counter key without stored entry\<close>



lemma distinct_Delta: "distinct (map fst s) \<Longrightarrow> distinct (map fst (snd (Delta s key c now w)))"
  by (simp add: Delta_def Let_def distinct_update split: option.split)

lemma distinct_Remove: "distinct (map fst s) \<Longrightarrow> distinct (map fst (Remove s key))"
  by (simp add: Remove_def distinct_delete)

lemma distinct_Purge: "distinct (map fst s) \<Longrightarrow> distinct (map fst (snd (Purge s maxAge now)))"
  by (simp add: Purge_def Let_def distinct_map_filter)






end
